theory Spec2Isabelle
  imports Main
begin

section \<open>The unsupported-platform notification facade (src/addon_none.cc)\<close>

text \<open>
  The addon is six native callbacks and a module initialiser, all written against the
  C++ wrapper of Node-API.  The callbacks allocate JavaScript objects and promises in the
  environment they are called in, so the environment is modelled as an explicit store that
  every callback receives (inside its \<open>CallbackInfo\<close>) and returns updated.  A failing
  Node-API call makes the wrapper raise \<open>Napi::Error\<close>, which leaves the callback and
  reaches the JavaScript caller as an exception: that is the \<open>Inl\<close> branch of every result.

  An object created by the addon inherits from \<open>Object.prototype\<close>, which scripts can
  extend: writing a property may run an inherited setter, and resolving a promise with an
  object reads the object's \<open>then\<close>, inherited or not.  The environment therefore holds
  the properties of \<open>Object.prototype\<close> next to the store.

  The store is unbounded, so creating a value never fails for lack of memory.  A callback
  is entered with no exception pending.
\<close>

subsection \<open>JavaScript values and the environment\<close>

type_synonym addr = nat

text \<open>The six native callbacks a function object of this addon can wrap.\<close>

datatype native_callback =
    CbIsAvailable
  | CbRequestPermission
  | CbGetPermissionStatus
  | CbShowNotification
  | CbRemoveNotification
  | CbRemoveAllNotifications

text \<open>
  A \<open>Napi::Value\<close>: primitives carry their data, objects and promises are references
  into the store.  A function object of the addon is identified with the native callback
  it wraps, a function defined by a script with a number.
\<close>

datatype napi_value =
    JSUndefined
  | JSNull
  | JSBoolean bool
  | JSNumber int
  | JSString string
  | JSObject addr
  | JSPromise addr
  | JSFunction native_callback
  | JSScriptFunction nat

datatype 'v promise_state = Pending | Fulfilled 'v | Rejected 'v

text \<open>
  A store cell: an ordinary object with its own properties in insertion order (writable
  data properties, the kind \<open>Set\<close> creates), or a promise with its state.
\<close>

datatype cell =
    ObjectCell "(string \<times> napi_value) list"
  | PromiseCell "napi_value promise_state"

text \<open>How a piece of script code ends: it returns a value or throws one.\<close>

datatype 'a completion = Returns 'a | Throws napi_value

text \<open>
  A property of \<open>Object.prototype\<close>: a data property with its value and whether it is
  writable, or an accessor property with its getter and setter, if it has them.  Getters
  and setters are script code; they are modelled by how they end.
\<close>

datatype property =
    DataProperty napi_value bool
  | AccessorProperty "napi_value completion option" "unit completion option"

text \<open>
  The environment: the store, and the properties of \<open>Object.prototype\<close> that scripts
  have defined (its built-in properties have other names than any looked up here).
\<close>

record env =
  heap :: "cell list"
  object_prototype :: "(string \<times> property) list"

text \<open>
  The statuses a failing Node-API call reports.  \<open>napi_pending_exception\<close> carries the
  value that script code has thrown during the call.
\<close>

datatype napi_error =
    napi_object_expected
  | napi_generic_failure
  | napi_pending_exception napi_value

record callback_info =
  Env :: env
  Args :: "napi_value list"

type_synonym callback_result = "napi_error + (napi_value \<times> env)"

definition cell_at :: "env \<Rightarrow> addr \<Rightarrow> cell option" where
  "cell_at e a = (if a < length (heap e) then Some (heap e ! a) else None)"

text \<open>Allocation appends a cell; its address is the old size of the store.\<close>

definition alloc :: "env \<Rightarrow> cell \<Rightarrow> addr \<times> env" where
  "alloc e c = (length (heap e), e\<lparr>heap := heap e @ [c]\<rparr>)"

subsection \<open>The Node-API operations the addon calls\<close>

definition Boolean_New :: "env \<Rightarrow> bool \<Rightarrow> napi_value" where
  "Boolean_New e b = JSBoolean b"

definition String_New :: "env \<Rightarrow> string \<Rightarrow> napi_value" where
  "String_New e s = JSString s"

definition Env_Undefined :: "env \<Rightarrow> napi_value" where
  "Env_Undefined e = JSUndefined"

definition Function_New :: "env \<Rightarrow> native_callback \<Rightarrow> napi_value" where
  "Function_New e cb = JSFunction cb"

definition Object_New :: "env \<Rightarrow> napi_value \<times> env" where
  "Object_New e = (case alloc e (ObjectCell []) of (a, e') \<Rightarrow> (JSObject a, e'))"

text \<open>The property \<open>k\<close> an object without an own \<open>k\<close> inherits, if any.\<close>

definition inherited :: "env \<Rightarrow> string \<Rightarrow> property option" where
  "inherited e k = map_of (object_prototype e) k"

text \<open>
  What writing \<open>k\<close> does on an object that has no own property \<open>k\<close>: with nothing
  inherited, or a writable data property, the object gets an own property; a data property
  that is not writable and an accessor without a setter leave the object as it is; a
  setter is called instead of the write, and either returns or throws.
\<close>

datatype set_effect = CreatesOwn | NoEffect | Raises napi_value

definition inherited_set :: "env \<Rightarrow> string \<Rightarrow> set_effect" where
  "inherited_set e k =
     (case inherited e k of
        None \<Rightarrow> CreatesOwn
      | Some (DataProperty v writable) \<Rightarrow> (if writable then CreatesOwn else NoEffect)
      | Some (AccessorProperty g None) \<Rightarrow> NoEffect
      | Some (AccessorProperty g (Some (Returns u))) \<Rightarrow> NoEffect
      | Some (AccessorProperty g (Some (Throws x))) \<Rightarrow> Raises x)"

text \<open>
  An existing own property keeps its place and gets the new value, a new one is added
  last.
\<close>

fun set_prop :: "string \<Rightarrow> napi_value \<Rightarrow> (string \<times> napi_value) list \<Rightarrow> (string \<times> napi_value) list" where
  "set_prop k v [] = [(k, v)]"
| "set_prop k v ((k', v') # ps) =
     (if k' = k then (k, v) # ps else (k', v') # set_prop k v ps)"

text \<open>
  \<open>obj.Set(key, value)\<close>.  \<open>undefined\<close> and \<open>null\<close> cannot be made objects.  On an
  ordinary object an own property is overwritten, and any other key is written as the
  prototype lets it.  Every other value takes the write: a boolean, number or string is
  wrapped in a temporary object for it, and the properties of promises and functions are
  not recorded, since nothing here reads them; an inherited setter runs for them all the
  same.
\<close>

definition Object_Set :: "env \<Rightarrow> napi_value \<Rightarrow> string \<Rightarrow> napi_value \<Rightarrow> napi_error + env" where
  "Object_Set e obj k v =
     (case obj of
        JSUndefined \<Rightarrow> Inl napi_object_expected
      | JSNull \<Rightarrow> Inl napi_object_expected
      | JSObject a \<Rightarrow>
          (case cell_at e a of
             Some (ObjectCell ps) \<Rightarrow>
               (case map_of ps k of
                  Some old \<Rightarrow> Inr (e\<lparr>heap := (heap e)[a := ObjectCell (set_prop k v ps)]\<rparr>)
                | None \<Rightarrow>
                    (case inherited_set e k of
                       CreatesOwn \<Rightarrow> Inr (e\<lparr>heap := (heap e)[a := ObjectCell (set_prop k v ps)]\<rparr>)
                     | NoEffect \<Rightarrow> Inr e
                     | Raises x \<Rightarrow> Inl (napi_pending_exception x)))
           | _ \<Rightarrow> Inl napi_object_expected)
      | _ \<Rightarrow>
          (case inherited_set e k of
             Raises x \<Rightarrow> Inl (napi_pending_exception x)
           | _ \<Rightarrow> Inr e))"

text \<open>
  \<open>Promise::Deferred::New\<close> creates a pending promise; the deferred is the handle that
  settles it, here the promise's address.
\<close>

definition Deferred_New :: "env \<Rightarrow> addr \<times> env" where
  "Deferred_New e = alloc e (PromiseCell Pending)"

definition Deferred_Promise :: "addr \<Rightarrow> napi_value" where
  "Deferred_Promise d = JSPromise d"

text \<open>
  Reading property \<open>k\<close> of an object: the own property if there is one, else the
  inherited one, whose getter runs if it is an accessor; \<open>undefined\<close> if there is none.
  Promises and functions have no recorded own properties.
\<close>

definition Get :: "env \<Rightarrow> napi_value \<Rightarrow> string \<Rightarrow> napi_value completion" where
  "Get e obj k =
     (case (case obj of
              JSObject a \<Rightarrow>
                (case cell_at e a of Some (ObjectCell ps) \<Rightarrow> map_of ps k | _ \<Rightarrow> None)
            | _ \<Rightarrow> None) of
        Some v \<Rightarrow> Returns v
      | None \<Rightarrow>
          (case inherited e k of
             None \<Rightarrow> Returns JSUndefined
           | Some (DataProperty v writable) \<Rightarrow> Returns v
           | Some (AccessorProperty None s) \<Rightarrow> Returns JSUndefined
           | Some (AccessorProperty (Some g) s) \<Rightarrow> g))"

definition is_object :: "napi_value \<Rightarrow> bool" where
  "is_object v =
     (case v of
        JSObject a \<Rightarrow> True
      | JSPromise a \<Rightarrow> True
      | JSFunction cb \<Rightarrow> True
      | JSScriptFunction i \<Rightarrow> True
      | _ \<Rightarrow> False)"

definition is_callable :: "napi_value \<Rightarrow> bool" where
  "is_callable v = (case v of JSFunction cb \<Rightarrow> True | JSScriptFunction i \<Rightarrow> True | _ \<Rightarrow> False)"

text \<open>
  The state a pending promise takes when it is resolved with \<open>v\<close>.  A value that is not
  an object fulfils it.  Of an object, \<open>then\<close> is read first: if the read throws, the
  promise is rejected with what was thrown; if \<open>then\<close> is callable, the promise stays
  pending until a later job has called it; otherwise the object fulfils the promise.  A
  promise has the built-in \<open>then\<close>.
\<close>

definition resolution :: "env \<Rightarrow> napi_value \<Rightarrow> napi_value promise_state" where
  "resolution e v =
     (if is_object v then
        (case v of
           JSPromise a \<Rightarrow> Pending
         | _ \<Rightarrow>
             (case Get e v ''then'' of
                Throws x \<Rightarrow> Rejected x
              | Returns t \<Rightarrow> (if is_callable t then Pending else Fulfilled v)))
      else Fulfilled v)"

text \<open>
  \<open>deferred.Resolve(value)\<close>: only a pending promise can be resolved, and a deferred
  that has been used already is an error.
\<close>

definition Deferred_Resolve :: "env \<Rightarrow> addr \<Rightarrow> napi_value \<Rightarrow> napi_error + env" where
  "Deferred_Resolve e d v =
     (case cell_at e d of
        Some (PromiseCell Pending) \<Rightarrow>
          Inr (e\<lparr>heap := (heap e)[d := PromiseCell (resolution e v)]\<rparr>)
      | _ \<Rightarrow> Inl napi_generic_failure)"

subsection \<open>The six callbacks\<close>

definition IsAvailable :: "callback_info \<Rightarrow> callback_result" where
  "IsAvailable info = Inr (Boolean_New (Env info) False, Env info)"

definition RequestPermission :: "callback_info \<Rightarrow> callback_result" where
  "RequestPermission info =
     (let e = Env info in
      case Deferred_New e of
        (deferred, e1) \<Rightarrow>
          (case Deferred_Resolve e1 deferred (Boolean_New e1 False) of
             Inl err \<Rightarrow> Inl err
           | Inr e2 \<Rightarrow> Inr (Deferred_Promise deferred, e2)))"

definition GetPermissionStatus :: "callback_info \<Rightarrow> callback_result" where
  "GetPermissionStatus info =
     (let e = Env info in
      case Deferred_New e of
        (deferred, e1) \<Rightarrow>
          (case Deferred_Resolve e1 deferred (String_New e1 ''denied'') of
             Inl err \<Rightarrow> Inl err
           | Inr e2 \<Rightarrow> Inr (Deferred_Promise deferred, e2)))"

definition ShowNotification :: "callback_info \<Rightarrow> callback_result" where
  "ShowNotification info =
     (let e = Env info in
      case Deferred_New e of
        (deferred, e1) \<Rightarrow>
          (case Object_New e1 of
             (result, e2) \<Rightarrow>
               (case Object_Set e2 result ''success'' (Boolean_New e2 False) of
                  Inl err \<Rightarrow> Inl err
                | Inr e3 \<Rightarrow>
                    (case Object_Set e3 result ''error''
                            (String_New e3 ''Native notifications not available on this platform'') of
                       Inl err \<Rightarrow> Inl err
                     | Inr e4 \<Rightarrow>
                         (case Deferred_Resolve e4 deferred result of
                            Inl err \<Rightarrow> Inl err
                          | Inr e5 \<Rightarrow> Inr (Deferred_Promise deferred, e5))))))"

definition RemoveNotification :: "callback_info \<Rightarrow> callback_result" where
  "RemoveNotification info = Inr (Env_Undefined (Env info), Env info)"

definition RemoveAllNotifications :: "callback_info \<Rightarrow> callback_result" where
  "RemoveAllNotifications info = Inr (Env_Undefined (Env info), Env info)"

subsection \<open>Module initialisation and calls from JavaScript\<close>

fun set_all :: "env \<Rightarrow> napi_value \<Rightarrow> (string \<times> napi_value) list \<Rightarrow> napi_error + env" where
  "set_all e obj [] = Inr e"
| "set_all e obj ((k, v) # kvs) =
     (case Object_Set e obj k v of Inl err \<Rightarrow> Inl err | Inr e' \<Rightarrow> set_all e' obj kvs)"

text \<open>\<open>Init\<close> sets six properties of \<open>exports\<close>, in this order, and returns \<open>exports\<close>.\<close>

definition Init :: "env \<Rightarrow> napi_value \<Rightarrow> callback_result" where
  "Init e exports =
     (case set_all e exports
        [(''isAvailable'', Function_New e CbIsAvailable),
         (''requestPermission'', Function_New e CbRequestPermission),
         (''getPermissionStatus'', Function_New e CbGetPermissionStatus),
         (''showNotification'', Function_New e CbShowNotification),
         (''removeNotification'', Function_New e CbRemoveNotification),
         (''removeAllNotifications'', Function_New e CbRemoveAllNotifications)] of
        Inl err \<Rightarrow> Inl err
      | Inr e' \<Rightarrow> Inr (exports, e'))"

text \<open>Calling a function object runs the native callback it wraps.\<close>

fun invoke :: "native_callback \<Rightarrow> callback_info \<Rightarrow> callback_result" where
  "invoke CbIsAvailable info = IsAvailable info"
| "invoke CbRequestPermission info = RequestPermission info"
| "invoke CbGetPermissionStatus info = GetPermissionStatus info"
| "invoke CbShowNotification info = ShowNotification info"
| "invoke CbRemoveNotification info = RemoveNotification info"
| "invoke CbRemoveAllNotifications info = RemoveAllNotifications info"

subsection \<open>What a caller sees of a result\<close>

text \<open>The state of a returned promise, when the value is one.\<close>

definition promise_state_of :: "env \<Rightarrow> napi_value \<Rightarrow> napi_value promise_state option" where
  "promise_state_of e v =
     (case v of
        JSPromise a \<Rightarrow> (case cell_at e a of Some (PromiseCell s) \<Rightarrow> Some s | _ \<Rightarrow> None)
      | _ \<Rightarrow> None)"

text \<open>The own properties of a returned object, when the value is one.\<close>

definition properties_of :: "env \<Rightarrow> napi_value \<Rightarrow> (string \<times> napi_value) list option" where
  "properties_of e v =
     (case v of
        JSObject a \<Rightarrow> (case cell_at e a of Some (ObjectCell ps) \<Rightarrow> Some ps | _ \<Rightarrow> None)
      | _ \<Rightarrow> None)"

text \<open>The cells a call has added to the store: those past the old end.\<close>

definition new_cells :: "env \<Rightarrow> env \<Rightarrow> cell list" where
  "new_cells e e' = drop (length (heap e)) (heap e')"

text \<open>
  What JavaScript code can read of a value: a primitive as it is, an object through its
  own properties and a promise through its state, each followed as far as the depth \<open>n\<close>
  allows (the store may hold cycles).  Addresses do not show.
\<close>

datatype view =
    VUndefined
  | VNull
  | VBoolean bool
  | VNumber int
  | VString string
  | VObject "(string \<times> view) list"
  | VPromise "view promise_state"
  | VFunction native_callback
  | VScriptFunction nat
  | VOpaque

fun observe :: "nat \<Rightarrow> env \<Rightarrow> napi_value \<Rightarrow> view" where
  "observe n e JSUndefined = VUndefined"
| "observe n e JSNull = VNull"
| "observe n e (JSBoolean b) = VBoolean b"
| "observe n e (JSNumber i) = VNumber i"
| "observe n e (JSString s) = VString s"
| "observe n e (JSFunction cb) = VFunction cb"
| "observe n e (JSScriptFunction i) = VScriptFunction i"
| "observe 0 e (JSObject a) = VOpaque"
| "observe (Suc n) e (JSObject a) =
     (case cell_at e a of
        Some (ObjectCell ps) \<Rightarrow> VObject (map (\<lambda>kv. (fst kv, observe n e (snd kv))) ps)
      | _ \<Rightarrow> VOpaque)"
| "observe 0 e (JSPromise a) = VOpaque"
| "observe (Suc n) e (JSPromise a) =
     (case cell_at e a of
        Some (PromiseCell s) \<Rightarrow> VPromise (map_promise_state (observe n e) s)
      | _ \<Rightarrow> VOpaque)"

text \<open>The outcome of a call for its caller: the exception, or the view of the value.\<close>

definition outcome :: "nat \<Rightarrow> callback_result \<Rightarrow> napi_error + view" where
  "outcome n r = (case r of Inl err \<Rightarrow> Inl err | Inr (v, e) \<Rightarrow> Inr (observe n e v))"


text \<open>
  \<open>ShowNotification\<close> writes \<open>success\<close> and \<open>error\<close> on an object it has created
  and resolves a promise with it, which reads the object's \<open>then\<close>.  Under a plain
  prototype, one that defines none of the three names, no script code runs in these calls.
\<close>

definition plain_prototype :: "env \<Rightarrow> bool" where
  "plain_prototype e =
     (inherited e ''success'' = None \<and> inherited e ''error'' = None \<and> inherited e ''then'' = None)"


text \<open>
  Modelled from the spec: the enumeration of permission statuses is declared by the
  platform implementation this facade stands in for, which is not in this file; the spec
  lists its values as granted, denied and not-determined.
\<close>

definition permission_statuses :: "string list" where
  "permission_statuses = [''granted'', ''denied'', ''not-determined'']"

section \<open>Properties\<close>

subsection \<open>The store after each callback\<close>

text \<open>Resolving with a boolean or a string reads no property.\<close>

lemma resolution_primitive:
  "resolution e (JSBoolean b) = Fulfilled (JSBoolean b)"
  "resolution e (JSString s) = Fulfilled (JSString s)"
  by (simp_all add: resolution_def is_object_def)

lemma RequestPermission_result:
  "RequestPermission info =
     Inr (JSPromise (length (heap (Env info))),
          (Env info)\<lparr>heap := heap (Env info) @ [PromiseCell (Fulfilled (JSBoolean False))]\<rparr>)"
  by (simp add: RequestPermission_def Deferred_New_def alloc_def Deferred_Resolve_def
      Let_def cell_at_def resolution_primitive Boolean_New_def Deferred_Promise_def)

lemma GetPermissionStatus_result:
  "GetPermissionStatus info =
     Inr (JSPromise (length (heap (Env info))),
          (Env info)\<lparr>heap := heap (Env info) @ [PromiseCell (Fulfilled (JSString ''denied''))]\<rparr>)"
  by (simp add: GetPermissionStatus_def Deferred_New_def alloc_def Deferred_Resolve_def
      Let_def cell_at_def resolution_primitive String_New_def Deferred_Promise_def)

text \<open>
  Under a plain prototype both writes create an own property and the object is not
  thenable.
\<close>

lemma ShowNotification_result:
  assumes "plain_prototype (Env info)"
  shows "ShowNotification info =
     Inr (JSPromise (length (heap (Env info))),
          (Env info)\<lparr>heap := heap (Env info) @
             [PromiseCell (Fulfilled (JSObject (Suc (length (heap (Env info)))))),
              ObjectCell [(''success'', JSBoolean False),
                          (''error'', JSString ''Native notifications not available on this platform'')]]\<rparr>)"
proof -
  from assms have inh:
    "map_of (object_prototype (Env info)) ''success'' = None"
    "map_of (object_prototype (Env info)) ''error'' = None"
    "map_of (object_prototype (Env info)) ''then'' = None"
    by (simp_all add: plain_prototype_def inherited_def)
  show ?thesis
    by (simp add: ShowNotification_def Deferred_New_def Object_New_def alloc_def Object_Set_def
        Deferred_Resolve_def Let_def cell_at_def resolution_def is_object_def is_callable_def
        Get_def inherited_set_def inherited_def inh String_New_def Boolean_New_def
        Deferred_Promise_def nth_append list_update_append)
qed

subsection \<open>The outcome of each callback\<close>


lemma outcome_RemoveNotification: "outcome n (RemoveNotification info) = Inr VUndefined"
  by (simp add: outcome_def RemoveNotification_def Env_Undefined_def)

lemma outcome_RemoveAllNotifications: "outcome n (RemoveAllNotifications info) = Inr VUndefined"
  by (simp add: outcome_def RemoveAllNotifications_def Env_Undefined_def)








subsection \<open>Initialisation and fresh promises\<close>

text \<open>
  Under an unextended prototype, \<open>Init\<close> on a fresh \<open>exports\<close> object binds the six
  JavaScript names to the six callbacks.
\<close>

lemma Init_exports:
  "Init \<lparr>heap = hp @ [ObjectCell []], object_prototype = []\<rparr> (JSObject (length hp)) =
     Inr (JSObject (length hp),
          \<lparr>heap = hp @
             [ObjectCell
                [(''isAvailable'', JSFunction CbIsAvailable),
                 (''requestPermission'', JSFunction CbRequestPermission),
                 (''getPermissionStatus'', JSFunction CbGetPermissionStatus),
                 (''showNotification'', JSFunction CbShowNotification),
                 (''removeNotification'', JSFunction CbRemoveNotification),
                 (''removeAllNotifications'', JSFunction CbRemoveAllNotifications)]],
           object_prototype = []\<rparr>)"
  by (simp add: Init_def Object_Set_def cell_at_def Function_New_def nth_append
      inherited_set_def inherited_def)

lemma Init_not_object: "Init e JSUndefined = Inl napi_object_expected"
  by (simp add: Init_def Object_Set_def)

text \<open>
  Every call of an asynchronous operation creates a promise of its own: two calls in a
  row return different references, whose views are equal.
\<close>

lemma RequestPermission_twice:
  "(case RequestPermission \<lparr>Env = e, Args = a1\<rparr> of
      Inl err \<Rightarrow> False
    | Inr (v1, e1) \<Rightarrow>
        (case RequestPermission \<lparr>Env = e1, Args = a2\<rparr> of
           Inl err \<Rightarrow> False
         | Inr (v2, e2) \<Rightarrow> v1 \<noteq> v2 \<and> observe n e2 v1 = observe n e2 v2))"
  by (cases n) (simp_all add: RequestPermission_result cell_at_def nth_append)

text \<open>
  A getter for \<open>then\<close> on \<open>Object.prototype\<close> that throws makes the resolution reject
  the promise with what was thrown.
\<close>

lemma ShowNotification_then_getter_throws:
  "ShowNotification
     \<lparr>Env = \<lparr>heap = [],
              object_prototype = [(''then'', AccessorProperty (Some (Throws (JSString ''no''))) None)]\<rparr>,
      Args = []\<rparr> =
     Inr (JSPromise 0,
          \<lparr>heap = [PromiseCell (Rejected (JSString ''no'')),
                   ObjectCell [(''success'', JSBoolean False),
                               (''error'', JSString ''Native notifications not available on this platform'')]],
           object_prototype = [(''then'', AccessorProperty (Some (Throws (JSString ''no''))) None)]\<rparr>)"
  by (simp add: ShowNotification_def Deferred_New_def Object_New_def alloc_def Object_Set_def
      Deferred_Resolve_def Let_def cell_at_def resolution_def is_object_def is_callable_def
      Get_def inherited_set_def inherited_def String_New_def Boolean_New_def
      Deferred_Promise_def)

text \<open>
  A property of another name on \<open>Object.prototype\<close>, and a writable data property of
  the same name, do not get in the way of a write.
\<close>

lemma inherited_set_writable:
  "inherited e k = Some (DataProperty v True) \<Longrightarrow> inherited_set e k = CreatesOwn"
  by (simp add: inherited_set_def)

subsection \<open>The claims about the single operations\<close>

text \<open>
  C1, as amended: for every notification descriptor, and any other arguments or none, in
  an environment whose \<open>Object.prototype\<close> has no property named \<open>success\<close>,
  \<open>error\<close> or \<open>then\<close>, \<open>showNotification\<close> returns without an exception a promise
  that is fulfilled, with an object whose properties are exactly \<open>success\<close>, the boolean
  false, and \<open>error\<close>, the string "Native notifications not available on this platform".
\<close>

theorem ShowNotification_settles:
  "plain_prototype (Env info) \<Longrightarrow>
   \<exists>p r e'.
     ShowNotification info = Inr (JSPromise p, e')
     \<and> promise_state_of e' (JSPromise p) = Some (Fulfilled (JSObject r))
     \<and> properties_of e' (JSObject r) =
         Some [(''success'', JSBoolean False),
               (''error'', JSString ''Native notifications not available on this platform'')]"
  by (simp add: ShowNotification_result promise_state_of_def properties_of_def cell_at_def
      nth_append)

text \<open>
  The call with the descriptor \<open>null\<close> in an empty store, under a prototype that a
  script has extended with another name.
\<close>

theorem ShowNotification_settles_witness:
  "plain_prototype (Env \<lparr>Env = \<lparr>heap = [], object_prototype = [(''toJSON'', DataProperty JSNull True)]\<rparr>, Args = [JSNull]\<rparr>)
   \<and> ShowNotification \<lparr>Env = \<lparr>heap = [], object_prototype = [(''toJSON'', DataProperty JSNull True)]\<rparr>, Args = [JSNull]\<rparr> =
     Inr (JSPromise 0,
          \<lparr>heap = [PromiseCell (Fulfilled (JSObject 1)),
                   ObjectCell [(''success'', JSBoolean False),
                               (''error'', JSString ''Native notifications not available on this platform'')]],
           object_prototype = [(''toJSON'', DataProperty JSNull True)]\<rparr>)"
proof -
  have h: "plain_prototype (Env \<lparr>Env = \<lparr>heap = [], object_prototype = [(''toJSON'', DataProperty JSNull True)]\<rparr>, Args = [JSNull]\<rparr>)"
    by (simp add: plain_prototype_def inherited_def)
  from ShowNotification_settles [OF h] h show ?thesis
    by (simp add: ShowNotification_def Deferred_New_def Object_New_def alloc_def Object_Set_def
        Deferred_Resolve_def Let_def cell_at_def resolution_def is_object_def is_callable_def
        Get_def inherited_set_def inherited_def String_New_def Boolean_New_def
        Deferred_Promise_def)
qed

text \<open>
  As stated for every environment, C1 fails: when \<open>Object.prototype\<close> has an accessor
  \<open>error\<close> whose setter returns, the write of \<open>error\<close> runs the setter and the record
  the promise is fulfilled with has no \<open>error\<close> property.
\<close>

theorem ShowNotification_inherited_setter_counterexample:
  "ShowNotification
     \<lparr>Env = \<lparr>heap = [],
              object_prototype = [(''error'', AccessorProperty None (Some (Returns ())))]\<rparr>,
      Args = [JSNull]\<rparr> =
     Inr (JSPromise 0,
          \<lparr>heap = [PromiseCell (Fulfilled (JSObject 1)),
                   ObjectCell [(''success'', JSBoolean False)]],
           object_prototype = [(''error'', AccessorProperty None (Some (Returns ())))]\<rparr>)"
  by (simp add: ShowNotification_def Deferred_New_def Object_New_def alloc_def Object_Set_def
      Deferred_Resolve_def Let_def cell_at_def resolution_def is_object_def is_callable_def
      Get_def inherited_set_def inherited_def String_New_def Boolean_New_def
      Deferred_Promise_def)

text \<open>
  C2: for every call, whatever the arguments, \<open>isAvailable\<close> returns the boolean false
  itself: the value is returned directly, not inside a promise, and the environment is
  as it was.
\<close>

theorem IsAvailable_false:
  "IsAvailable info = Inr (JSBoolean False, Env info)
   \<and> promise_state_of (Env info) (JSBoolean False) = None"
  by (simp add: IsAvailable_def Boolean_New_def promise_state_of_def)

theorem IsAvailable_false_witness:
  "IsAvailable \<lparr>Env = \<lparr>heap = [ObjectCell []], object_prototype = []\<rparr>, Args = [JSNumber 7, JSObject 0]\<rparr> =
     Inr (JSBoolean False, \<lparr>heap = [ObjectCell []], object_prototype = []\<rparr>)"
  using IsAvailable_false [of "\<lparr>Env = \<lparr>heap = [ObjectCell []], object_prototype = []\<rparr>, Args = [JSNumber 7, JSObject 0]\<rparr>"]
  by simp

text \<open>
  C3: for every call, \<open>requestPermission\<close> returns (the callback is a total function
  with no loop) without an exception, and what it returns is a promise fulfilled with the
  boolean false: neither fulfilled with true, nor rejected, nor pending.
\<close>

theorem RequestPermission_settles_false:
  "\<exists>p e'.
     RequestPermission info = Inr (JSPromise p, e')
     \<and> promise_state_of e' (JSPromise p) = Some (Fulfilled (JSBoolean False))"
  by (simp add: RequestPermission_result promise_state_of_def cell_at_def)

theorem RequestPermission_settles_false_witness:
  "RequestPermission \<lparr>Env = \<lparr>heap = [PromiseCell Pending], object_prototype = []\<rparr>, Args = []\<rparr> =
     Inr (JSPromise 1,
          \<lparr>heap = [PromiseCell Pending, PromiseCell (Fulfilled (JSBoolean False))],
           object_prototype = []\<rparr>)"
  using RequestPermission_settles_false [of "\<lparr>Env = \<lparr>heap = [PromiseCell Pending], object_prototype = []\<rparr>, Args = []\<rparr>"]
  by (simp add: RequestPermission_def Deferred_New_def alloc_def Deferred_Resolve_def
      Let_def cell_at_def resolution_def is_object_def Boolean_New_def Deferred_Promise_def)

text \<open>
  C4: for every call, \<open>getPermissionStatus\<close> returns without an exception a promise
  fulfilled with the string "denied", and "denied" is one of the permission statuses.
\<close>

theorem GetPermissionStatus_settles_denied:
  "(\<exists>p e'.
      GetPermissionStatus info = Inr (JSPromise p, e')
      \<and> promise_state_of e' (JSPromise p) = Some (Fulfilled (JSString ''denied'')))
   \<and> ''denied'' \<in> set permission_statuses"
  by (simp add: GetPermissionStatus_result promise_state_of_def cell_at_def
      permission_statuses_def)

theorem GetPermissionStatus_settles_denied_witness:
  "GetPermissionStatus \<lparr>Env = \<lparr>heap = [], object_prototype = []\<rparr>, Args = [JSString ''granted'']\<rparr> =
     Inr (JSPromise 0,
          \<lparr>heap = [PromiseCell (Fulfilled (JSString ''denied''))], object_prototype = []\<rparr>)"
  using GetPermissionStatus_settles_denied [of "\<lparr>Env = \<lparr>heap = [], object_prototype = []\<rparr>, Args = [JSString ''granted'']\<rparr>"]
  by (simp add: GetPermissionStatus_def Deferred_New_def alloc_def Deferred_Resolve_def
      Let_def cell_at_def resolution_def is_object_def String_New_def Deferred_Promise_def)

text \<open>
  C5: for every identifier, \<open>null\<close> or none at all included, and in every environment
  (so after any earlier calls), \<open>removeNotification\<close> and \<open>removeAllNotifications\<close>
  return without an exception, leave the environment exactly as it was, and return
  \<open>undefined\<close>, which is what a JavaScript function with no return value returns.
\<close>

theorem removal_no_effect:
  "RemoveNotification info = Inr (JSUndefined, Env info)
   \<and> RemoveAllNotifications info = Inr (JSUndefined, Env info)"
  by (simp add: RemoveNotification_def RemoveAllNotifications_def Env_Undefined_def)

theorem removal_no_effect_witness:
  "RemoveNotification \<lparr>Env = \<lparr>heap = [PromiseCell Pending], object_prototype = []\<rparr>, Args = [JSNull]\<rparr> =
     Inr (JSUndefined, \<lparr>heap = [PromiseCell Pending], object_prototype = []\<rparr>)
   \<and> RemoveAllNotifications \<lparr>Env = \<lparr>heap = [PromiseCell Pending], object_prototype = []\<rparr>, Args = [JSNull]\<rparr> =
     Inr (JSUndefined, \<lparr>heap = [PromiseCell Pending], object_prototype = []\<rparr>)"
  using removal_no_effect [of "\<lparr>Env = \<lparr>heap = [PromiseCell Pending], object_prototype = []\<rparr>, Args = [JSNull]\<rparr>"]
  by simp

text \<open>
  C6, as amended: when \<open>requestPermission\<close> or \<open>getPermissionStatus\<close> returns, in
  any environment, and when \<open>showNotification\<close> returns in an environment whose
  \<open>Object.prototype\<close> has no property named \<open>success\<close>, \<open>error\<close> or \<open>then\<close>, the
  promise it returns is fulfilled already (not pending, not rejected), and among the cells
  the call has created none is a pending promise: nothing is left to wait for or to
  cancel.
\<close>

theorem promises_settled_on_return:
  "(\<exists>p e' v.
      RequestPermission info = Inr (JSPromise p, e')
      \<and> promise_state_of e' (JSPromise p) = Some (Fulfilled v)
      \<and> PromiseCell Pending \<notin> set (new_cells (Env info) e'))
   \<and> (\<exists>p e' v.
      GetPermissionStatus info = Inr (JSPromise p, e')
      \<and> promise_state_of e' (JSPromise p) = Some (Fulfilled v)
      \<and> PromiseCell Pending \<notin> set (new_cells (Env info) e'))
   \<and> (plain_prototype (Env info) \<longrightarrow>
       (\<exists>p e' v.
          ShowNotification info = Inr (JSPromise p, e')
          \<and> promise_state_of e' (JSPromise p) = Some (Fulfilled v)
          \<and> PromiseCell Pending \<notin> set (new_cells (Env info) e')))"
  by (simp add: RequestPermission_result GetPermissionStatus_result ShowNotification_result
      promise_state_of_def cell_at_def new_cells_def nth_append)

theorem promises_settled_on_return_witness:
  "plain_prototype (Env \<lparr>Env = \<lparr>heap = [], object_prototype = []\<rparr>, Args = []\<rparr>)
   \<and> map (\<lambda>r. case r of Inl err \<Rightarrow> None | Inr (v, e') \<Rightarrow> promise_state_of e' v)
     [RequestPermission \<lparr>Env = \<lparr>heap = [], object_prototype = []\<rparr>, Args = []\<rparr>,
      GetPermissionStatus \<lparr>Env = \<lparr>heap = [], object_prototype = []\<rparr>, Args = []\<rparr>,
      ShowNotification \<lparr>Env = \<lparr>heap = [], object_prototype = []\<rparr>, Args = []\<rparr>] =
     [Some (Fulfilled (JSBoolean False)),
      Some (Fulfilled (JSString ''denied'')),
      Some (Fulfilled (JSObject 1))]"
proof -
  have h: "plain_prototype (Env \<lparr>Env = \<lparr>heap = [], object_prototype = []\<rparr>, Args = []\<rparr>)"
    by (simp add: plain_prototype_def inherited_def)
  from promises_settled_on_return [of "\<lparr>Env = \<lparr>heap = [], object_prototype = []\<rparr>, Args = []\<rparr>"] h show ?thesis
    by (simp add: RequestPermission_def GetPermissionStatus_def ShowNotification_def
        Deferred_New_def Object_New_def alloc_def Object_Set_def Deferred_Resolve_def Let_def
        cell_at_def resolution_def is_object_def is_callable_def Get_def inherited_set_def
        inherited_def String_New_def Boolean_New_def Deferred_Promise_def promise_state_of_def)
qed

text \<open>
  As stated for every environment, C6 fails: when \<open>Object.prototype\<close> has a callable
  \<open>then\<close>, the record inherits it, resolving with the record leaves the promise to a
  later job, and \<open>showNotification\<close> returns a promise that is still pending.
\<close>

theorem ShowNotification_inherited_then_counterexample:
  "ShowNotification
     \<lparr>Env = \<lparr>heap = [],
              object_prototype = [(''then'', DataProperty (JSScriptFunction 0) True)]\<rparr>,
      Args = []\<rparr> =
     Inr (JSPromise 0,
          \<lparr>heap = [PromiseCell Pending,
                   ObjectCell [(''success'', JSBoolean False),
                               (''error'', JSString ''Native notifications not available on this platform'')]],
           object_prototype = [(''then'', DataProperty (JSScriptFunction 0) True)]\<rparr>)"
  by (simp add: ShowNotification_def Deferred_New_def Object_New_def alloc_def Object_Set_def
      Deferred_Resolve_def Let_def cell_at_def resolution_def is_object_def is_callable_def
      Get_def inherited_set_def inherited_def String_New_def Boolean_New_def
      Deferred_Promise_def)

subsection \<open>The claims about all six operations\<close>



text \<open>
  C8: each of the six operations ignores its arguments: in the same environment, two
  calls with any two argument lists return the same value and leave the same store.
\<close>

theorem inputs_ignored:
  "invoke cb \<lparr>Env = e, Args = args1\<rparr> = invoke cb \<lparr>Env = e, Args = args2\<rparr>"
  by (cases cb)
    (simp_all add: IsAvailable_def RequestPermission_def GetPermissionStatus_def
      ShowNotification_def RemoveNotification_def RemoveAllNotifications_def)

theorem inputs_ignored_witness:
  "invoke CbRemoveNotification \<lparr>Env = \<lparr>heap = [], object_prototype = []\<rparr>, Args = [JSString ''n1'']\<rparr> = Inr (JSUndefined, \<lparr>heap = [], object_prototype = []\<rparr>)
   \<and> invoke CbRemoveNotification \<lparr>Env = \<lparr>heap = [], object_prototype = []\<rparr>, Args = []\<rparr> = Inr (JSUndefined, \<lparr>heap = [], object_prototype = []\<rparr>)"
  using inputs_ignored [of CbRemoveNotification "\<lparr>heap = [], object_prototype = []\<rparr>" "[JSString ''n1'']" "[]"]
  by (simp add: RemoveNotification_def Env_Undefined_def)

text \<open>
  C9, as amended: no call of \<open>isAvailable\<close>, \<open>requestPermission\<close>,
  \<open>getPermissionStatus\<close>, \<open>removeNotification\<close> or \<open>removeAllNotifications\<close>, and no
  call of \<open>showNotification\<close> in an environment whose \<open>Object.prototype\<close> has no
  property named \<open>success\<close>, \<open>error\<close> or \<open>then\<close>, ends in an exception, and a promise
  it returns is not rejected; the outcome is one of the five ordinary results: false, a
  promise of false, a promise of "denied", a promise of the record with \<open>success\<close> false
  and the message, or \<open>undefined\<close>.
\<close>

theorem no_exception_no_rejection:
  "cb \<noteq> CbShowNotification \<or> plain_prototype (Env info) \<Longrightarrow>
   (\<exists>v e'. invoke cb info = Inr (v, e') \<and> (\<forall>x. promise_state_of e' v \<noteq> Some (Rejected x)))
   \<and> outcome 2 (invoke cb info) \<in> set
       [Inr (VBoolean False),
        Inr (VPromise (Fulfilled (VBoolean False))),
        Inr (VPromise (Fulfilled (VString ''denied''))),
        Inr (VPromise (Fulfilled (VObject [(''success'', VBoolean False),
          (''error'', VString ''Native notifications not available on this platform'')]))),
        Inr VUndefined]"
  by (cases cb)
    (simp_all add: IsAvailable_def RequestPermission_result GetPermissionStatus_result
      ShowNotification_result RemoveNotification_def RemoveAllNotifications_def
      promise_state_of_def cell_at_def nth_append outcome_def numeral_2_eq_2
      Boolean_New_def Env_Undefined_def)

theorem no_exception_no_rejection_witness:
  "plain_prototype (Env \<lparr>Env = \<lparr>heap = [], object_prototype = []\<rparr>, Args = [JSNumber 1]\<rparr>)
   \<and> invoke CbShowNotification \<lparr>Env = \<lparr>heap = [], object_prototype = []\<rparr>, Args = [JSNumber 1]\<rparr> =
     Inr (JSPromise 0,
          \<lparr>heap = [PromiseCell (Fulfilled (JSObject 1)),
                   ObjectCell [(''success'', JSBoolean False),
                               (''error'', JSString ''Native notifications not available on this platform'')]],
           object_prototype = []\<rparr>)"
proof -
  have h: "plain_prototype (Env \<lparr>Env = \<lparr>heap = [], object_prototype = []\<rparr>, Args = [JSNumber 1]\<rparr>)"
    by (simp add: plain_prototype_def inherited_def)
  then have "CbShowNotification \<noteq> CbShowNotification
      \<or> plain_prototype (Env \<lparr>Env = \<lparr>heap = [], object_prototype = []\<rparr>, Args = [JSNumber 1]\<rparr>)" by (rule disjI2)
  from no_exception_no_rejection [OF this] h show ?thesis
    by (simp add: ShowNotification_def Deferred_New_def Object_New_def alloc_def Object_Set_def
        Deferred_Resolve_def Let_def cell_at_def resolution_def is_object_def is_callable_def
        Get_def inherited_set_def inherited_def String_New_def Boolean_New_def
        Deferred_Promise_def)
qed

text \<open>
  As stated for every environment, C9 fails: when \<open>Object.prototype\<close> has an accessor
  \<open>success\<close> whose setter throws, the write of \<open>success\<close> throws, and
  \<open>showNotification\<close> ends in that exception.
\<close>

theorem ShowNotification_throws_counterexample:
  "invoke CbShowNotification
     \<lparr>Env = \<lparr>heap = [],
              object_prototype =
                [(''success'', AccessorProperty None (Some (Throws (JSString ''read-only''))))]\<rparr>,
      Args = []\<rparr> =
     Inl (napi_pending_exception (JSString ''read-only''))"
  by (simp add: ShowNotification_def Deferred_New_def Object_New_def alloc_def Object_Set_def
      Let_def cell_at_def inherited_set_def inherited_def Boolean_New_def)

text \<open>
  C10: for every call, the value \<open>removeNotification\<close> and \<open>removeAllNotifications\<close>
  return is \<open>undefined\<close>: not \<open>null\<close>, not a promise, not an object, and not an
  exception.
\<close>

theorem removal_returns_undefined:
  "outcome n (RemoveNotification info) = Inr VUndefined
   \<and> outcome n (RemoveAllNotifications info) = Inr VUndefined
   \<and> Inr VUndefined \<notin> {Inr VNull :: napi_error + view} \<union> range (Inr \<circ> VPromise) \<union> range (Inr \<circ> VObject) \<union> range Inl"
  by (auto simp add: outcome_RemoveNotification outcome_RemoveAllNotifications)

theorem removal_returns_undefined_witness:
  "outcome 0 (RemoveNotification \<lparr>Env = \<lparr>heap = [], object_prototype = []\<rparr>, Args = []\<rparr>) = Inr VUndefined
   \<and> outcome 0 (RemoveAllNotifications \<lparr>Env = \<lparr>heap = [], object_prototype = []\<rparr>, Args = []\<rparr>) = Inr VUndefined"
  using removal_returns_undefined [of 0 "\<lparr>Env = \<lparr>heap = [], object_prototype = []\<rparr>, Args = []\<rparr>"]
  by simp

end
